theory Spec2Isabelle
  imports Main "HOL-Library.Log_Nat"
begin

section \<open>JavaScript numbers\<close>

text \<open>
  Every number of \<^verbatim>\<open>static/js/app.js\<close> is an IEEE 754 double. A finite double is
  modelled by the rational it denotes, and every arithmetic operation of the script is the
  exact operation followed by \<open>to_double\<close>, rounding to the nearest double with ties to
  the even significand (53 bits, gradual underflow below \<open>2 ^ - 1022\<close>). Results of
  magnitude \<open>2 ^ 1024\<close> and above (\<^verbatim>\<open>Infinity\<close>), \<^verbatim>\<open>NaN\<close> and the sign of zero are
  outside this model.
\<close>

definition pow2 :: "int \<Rightarrow> rat" where
  "pow2 k = (if 0 \<le> k then 2 ^ nat k else 1 / 2 ^ nat (- k))"

text \<open>\<open>ilog2 x\<close> is the binary exponent \<open>e\<close> of a non-zero \<open>x\<close>: \<open>2 ^ e \<le> \<bar>x\<bar> < 2 ^ (e + 1)\<close>.\<close>

definition ilog2 :: "rat \<Rightarrow> int" where
  "ilog2 x = (let (a, b) = quotient_of \<bar>x\<bar>; d = bitlen a - bitlen b
              in if pow2 d \<le> \<bar>x\<bar> then d else d - 1)"

definition roundTiesToEven :: "rat \<Rightarrow> int" where
  "roundTiesToEven y = (let f = \<lfloor>y\<rfloor>; r = y - of_int f
     in if r < 1 / 2 then f else if 1 / 2 < r then f + 1 else if even f then f else f + 1)"

definition to_double :: "rat \<Rightarrow> rat" where
  "to_double x = (if x = 0 then 0
     else let q = max (ilog2 x - 52) (- 1074)
          in of_int (roundTiesToEven (x / pow2 q)) * pow2 q)"

definition num_add :: "rat \<Rightarrow> rat \<Rightarrow> rat" where
  "num_add a b = to_double (a + b)"

definition num_mul :: "rat \<Rightarrow> rat \<Rightarrow> rat" where
  "num_mul a b = to_double (a * b)"

text \<open>The script divides only behind a guard that makes the divisor non-zero.\<close>

definition num_div :: "rat \<Rightarrow> rat \<Rightarrow> rat" where
  "num_div a b = to_double (a / b)"

text \<open>The decimal digits of a non-negative integer.\<close>

function digits :: "int \<Rightarrow> string" where
  "digits n = (if n < 10 then [''0123456789'' ! nat n]
               else digits (n div 10) @ [''0123456789'' ! nat (n mod 10)])"
  by pat_completeness auto
termination
  by (relation "measure nat") auto

text \<open>
  \<^verbatim>\<open>Number.prototype.toFixed(f)\<close> for \<open>\<bar>x\<bar> < 10 ^ 21\<close>, step by step as ECMA-262 gives
  it: the sign is split off, \<open>n\<close> is the integer with \<open>n / 10 ^ f\<close> nearest to \<open>\<bar>x\<bar>\<close> (the
  larger one of two), its digits are padded with zeros to \<open>f + 1\<close> places and the point is
  put before the last \<open>f\<close>.
\<close>

definition toFixed :: "nat \<Rightarrow> rat \<Rightarrow> string" where
  "toFixed f x =
     (let s = (if x < 0 then ''-'' else '''');
          x' = \<bar>x\<bar>;
          n = \<lfloor>x' * 10 ^ f + 1 / 2\<rfloor>;
          m = digits n;
          m' = (if f \<noteq> 0
                then (let k = length m;
                          mz = (if k \<le> f then replicate (f + 1 - k) (CHR ''0'') @ m else m);
                          k' = length mz
                      in take (k' - f) mz @ ''.'' @ drop (k' - f) mz)
                else m)
      in s @ m')"

text \<open>
  What the browser supplies and the repository does not fix: the locale's rendering of a
  number (\<^verbatim>\<open>toLocaleString\<close>) and of a date (\<^verbatim>\<open>new Date(d).toLocaleDateString()\<close>).
\<close>

record host =
  toLocaleString :: "rat \<Rightarrow> string"
  toLocaleDateString :: "string \<Rightarrow> string"

text \<open>
  A sample host for concrete runs: integers with groups of three digits separated by
  commas, as the \<^verbatim>\<open>en-US\<close> locale writes them (fraction digits are dropped), and
  dates left as they are.
\<close>

fun group3 :: "string \<Rightarrow> string" where
  "group3 ds = (if length ds \<le> 3 then ds
                else group3 (take (length ds - 3) ds) @ '','' @ drop (length ds - 3) ds)"

definition en_US :: host where
  "en_US = \<lparr>toLocaleString = (\<lambda>x. (if x < 0 then ''-'' else '''') @ group3 (digits \<lfloor>\<bar>x\<bar>\<rfloor>)),
            toLocaleDateString = (\<lambda>d. d)\<rparr>"

section \<open>Data model\<close>

record website =
  website_id :: int
  name :: string
  url :: string
  is_verified :: bool
  last_audit :: "string option"

record metric =
  date :: string
  clicks :: int
  impressions :: int
  position :: rat

text \<open>
  The requests the script issues with \<^verbatim>\<open>fetch\<close>: \<^verbatim>\<open>GET /api/websites\<close>,
  \<^verbatim>\<open>POST /api/websites\<close> with body \<^verbatim>\<open>{name, url}\<close>, \<^verbatim>\<open>DELETE /api/websites/{id}\<close>,
  \<^verbatim>\<open>GET /api/websites/{id}/metrics?days={days}\<close> and \<^verbatim>\<open>POST /api/websites/{id}/audit\<close>.
\<close>

datatype request =
    GET_websites
  | POST_websites string string
  | DELETE_website int
  | GET_metrics int string
  | POST_audit int

text \<open>
  The outcome of one \<^verbatim>\<open>fetch\<close>: the promise rejects, or it resolves to a response with
  its \<^verbatim>\<open>ok\<close> flag and its body. A body that is read as an array (the website list, the
  metrics) is \<open>None\<close> when \<^verbatim>\<open>response.json()\<close> rejects or yields a value on which the
  reading code throws before it has written anything (\<^verbatim>\<open>null\<close>, an object that is not an
  array), and \<open>Some\<close> of the array of records otherwise; bodies of other shapes are outside
  this model. The body of the audit is \<open>None\<close> when \<^verbatim>\<open>response.json()\<close> rejects,
  \<open>Some None\<close> when it is \<^verbatim>\<open>null\<close>, whose fields cannot be read, and \<open>Some (Some v)\<close> for a
  value \<open>v\<close> with its fields \<^verbatim>\<open>results\<close> and \<^verbatim>\<open>error\<close>, each of which may be missing.
\<close>

datatype 'a fetch_result = Rejected | Response bool "'a option"

record audit_json =
  results :: "string option"
  error :: "string option"

text \<open>
  The grid's \<^verbatim>\<open>innerHTML\<close> by the values put into its template: the empty-state prompt,
  or one card per element of the mapped array, each card holding the arguments of its two
  \<^verbatim>\<open>onclick\<close> handlers and its four texts.
\<close>

record card =
  select_args :: "int \<times> string"
  card_name :: string
  card_url :: string
  delete_arg :: int
  status_value :: string
  last_audit_value :: string

datatype grid_html = EmptyState | Cards "card list"

definition cards_of :: "grid_html \<Rightarrow> card list" where
  "cards_of g = (case g of EmptyState \<Rightarrow> [] | Cards cs \<Rightarrow> cs)"

text \<open>A chart of the charting library: its identity and the data of its configuration.\<close>

record chart =
  chart_id :: nat
  labels :: "string list"
  clicksData :: "rat list"
  impressionsData :: "rat list"
  positionData :: "rat list"

text \<open>
  The state the script reads and writes: its two globals, the properties of the page's
  elements it touches, and the record of its effects on the outside (the chart instances
  that exist, the notifications shown, the console lines, the requests issued, in order).
  Scrolling, focus, and the timed removal of a notification are not modelled.
\<close>

record dashboard =
  currentWebsiteId :: "int option"
  performanceChart :: "nat option"
  chart_instances :: "chart list"
  charts_created :: nat
  websites_grid :: grid_html
  selected_website_name :: string
  metrics_section_display :: string
  loading_overlay_display :: string
  add_website_modal_display :: string
  website_name_value :: string
  website_url_value :: string
  date_range_value :: string
  total_clicks :: string
  total_impressions :: string
  avg_ctr :: string
  avg_position :: string
  notifications :: "(string \<times> string) list"
  console :: "string list"
  requests :: "request list"

section \<open>The script\<close>

text \<open>
  The script's globals start as \<^verbatim>\<open>null\<close> (lines 2 and 3) on whatever page loads it,
  and no chart exists yet.
\<close>

definition page_start :: "dashboard \<Rightarrow> dashboard" where
  "page_start page = page\<lparr>currentWebsiteId := None, performanceChart := None,
                         chart_instances := [], charts_created := 0\<rparr>"

text \<open>A page whose elements are empty and hidden, for concrete runs.\<close>

definition blank_page :: dashboard where
  "blank_page = page_start
     \<lparr>currentWebsiteId = None, performanceChart = None, chart_instances = [],
      charts_created = 0, websites_grid = Cards [], selected_website_name = '''',
      metrics_section_display = ''none'', loading_overlay_display = ''none'',
      add_website_modal_display = ''none'', website_name_value = '''',
      website_url_value = '''', date_range_value = ''30'', total_clicks = '''',
      total_impressions = '''', avg_ctr = '''', avg_position = '''',
      notifications = [], console = [], requests = []\<rparr>"

subsection \<open>Truthiness\<close>

text \<open>
  \<^verbatim>\<open>if (currentWebsiteId)\<close> and \<^verbatim>\<open>!currentWebsiteId\<close> coerce to a boolean: \<^verbatim>\<open>null\<close> and the
  number \<open>0\<close> are falsy, every other number is truthy. For a string field that may be
  missing (\<^verbatim>\<open>x || fallback\<close>, \<^verbatim>\<open>x ? a : b\<close>), a missing value and the empty string are falsy.
\<close>

definition truthy_id :: "int option \<Rightarrow> bool" where
  "truthy_id v = (case v of None \<Rightarrow> False | Some i \<Rightarrow> i \<noteq> 0)"

definition truthy_string :: "string option \<Rightarrow> bool" where
  "truthy_string v = (case v of None \<Rightarrow> False | Some t \<Rightarrow> t \<noteq> '''')"

definition or_else :: "string option \<Rightarrow> string \<Rightarrow> string" where
  "or_else v fallback = (case v of None \<Rightarrow> fallback | Some t \<Rightarrow> if t = '''' then fallback else t)"

subsection \<open>Loading overlay, notifications, console, requests\<close>

definition showLoading :: "dashboard \<Rightarrow> dashboard" where
  "showLoading s = s\<lparr>loading_overlay_display := ''flex''\<rparr>"

definition hideLoading :: "dashboard \<Rightarrow> dashboard" where
  "hideLoading s = s\<lparr>loading_overlay_display := ''none''\<rparr>"

definition showNotification :: "string \<Rightarrow> string \<Rightarrow> dashboard \<Rightarrow> dashboard" where
  "showNotification message type s = s\<lparr>notifications := notifications s @ [(message, type)]\<rparr>"

definition console_line :: "string \<Rightarrow> dashboard \<Rightarrow> dashboard" where
  "console_line msg s = s\<lparr>console := console s @ [msg]\<rparr>"

definition fetch :: "request \<Rightarrow> dashboard \<Rightarrow> dashboard" where
  "fetch rq s = s\<lparr>requests := requests s @ [rq]\<rparr>"

subsection \<open>Website list\<close>

definition card_of :: "website \<Rightarrow> card" where
  "card_of w = \<lparr>select_args = (website_id w, name w),
                 card_name = name w,
                 card_url = url w,
                 delete_arg = website_id w,
                 status_value = (if is_verified w then ''Verified'' else ''Pending''),
                 last_audit_value = (if truthy_string (last_audit w) then ''Recent'' else ''Never'')\<rparr>"

definition displayWebsites :: "website list \<Rightarrow> dashboard \<Rightarrow> dashboard" where
  "displayWebsites websites s =
     (if length websites = 0 then s\<lparr>websites_grid := EmptyState\<rparr>
      else s\<lparr>websites_grid := Cards (map card_of websites)\<rparr>)"

text \<open>
  An \<^verbatim>\<open>async\<close> function runs up to its \<^verbatim>\<open>await fetch(...)\<close>, is suspended while the request
  is in flight, and goes on when the request settles. For each of them, \<open>f_pending\<close> is
  the state in which it is suspended, and \<open>f\<close> takes the outcome of the request and
  gives the state in which it ends.
\<close>

definition loadWebsites_pending :: "dashboard \<Rightarrow> dashboard" where
  "loadWebsites_pending s = fetch GET_websites (showLoading s)"

definition loadWebsites :: "website list fetch_result \<Rightarrow> dashboard \<Rightarrow> dashboard" where
  "loadWebsites r s =
     (let s1 = loadWebsites_pending s;
          s2 = (case r of
                  Response ok (Some websites) \<Rightarrow> displayWebsites websites s1
                | _ \<Rightarrow> showNotification ''Error loading websites'' ''error''
                         (console_line ''Error loading websites:'' s1))
      in hideLoading s2)"

subsection \<open>Metrics\<close>

text \<open>
  In the template literal of line 139, \<open>avgCtr\<close> is the string \<^verbatim>\<open>toFixed\<close> returned or
  the number \<open>0\<close>, which is rendered by its digits.
\<close>

definition displayMetrics :: "host \<Rightarrow> metric list \<Rightarrow> dashboard \<Rightarrow> dashboard" where
  "displayMetrics h metrics s =
     (if length metrics = 0
      then s\<lparr>total_clicks := ''0'', total_impressions := ''0'',
             avg_ctr := ''0%'', avg_position := ''0''\<rparr>
      else
        let totalClicks = foldl (\<lambda>sum m. num_add sum (of_int (clicks m))) 0 metrics;
            totalImpressions = foldl (\<lambda>sum m. num_add sum (of_int (impressions m))) 0 metrics;
            avgCtr = (if totalImpressions > 0
                      then toFixed 2 (num_mul (num_div totalClicks totalImpressions) 100)
                      else digits 0);
            avgPosition = toFixed 1 (num_div (foldl (\<lambda>sum m. num_add sum (position m)) 0 metrics)
                                             (of_nat (length metrics)))
        in s\<lparr>total_clicks := toLocaleString h totalClicks,
             total_impressions := toLocaleString h totalImpressions,
             avg_ctr := avgCtr @ ''%'',
             avg_position := avgPosition\<rparr>)"

text \<open>
  The charting library: \<^verbatim>\<open>destroy()\<close> ends an instance, \<^verbatim>\<open>new Chart(ctx, config)\<close> makes a
  new one with an identity no earlier instance had. The configuration's constant styling
  is left out.
\<close>

definition chart_destroy :: "nat \<Rightarrow> dashboard \<Rightarrow> dashboard" where
  "chart_destroy c s = s\<lparr>chart_instances := filter (\<lambda>x. chart_id x \<noteq> c) (chart_instances s)\<rparr>"

definition destroy_existing :: "dashboard \<Rightarrow> dashboard" where
  "destroy_existing s = (case performanceChart s of None \<Rightarrow> s | Some c \<Rightarrow> chart_destroy c s)"

definition new_Chart :: "string list \<Rightarrow> rat list \<Rightarrow> rat list \<Rightarrow> rat list \<Rightarrow> dashboard \<Rightarrow> nat \<times> dashboard" where
  "new_Chart ls cs is ps s =
     (charts_created s,
      s\<lparr>chart_instances := chart_instances s @
           [\<lparr>chart_id = charts_created s, labels = ls, clicksData = cs,
             impressionsData = is, positionData = ps\<rparr>],
        charts_created := Suc (charts_created s)\<rparr>)"

definition updateChart :: "host \<Rightarrow> metric list \<Rightarrow> dashboard \<Rightarrow> dashboard" where
  "updateChart h metrics s =
     (let s1 = destroy_existing s;
          labels = map (\<lambda>m. toLocaleDateString h (date m)) metrics;
          clicksData = map (\<lambda>m. of_int (clicks m)) metrics;
          impressionsData = map (\<lambda>m. of_int (impressions m)) metrics;
          positionData = map (\<lambda>m. position m) metrics;
          (c, s2) = new_Chart labels clicksData impressionsData positionData s1
      in s2\<lparr>performanceChart := Some c\<rparr>)"

definition loadWebsiteMetrics_pending :: "int \<Rightarrow> dashboard \<Rightarrow> dashboard" where
  "loadWebsiteMetrics_pending websiteId s =
     (let s1 = showLoading s;
          days = date_range_value s1
      in fetch (GET_metrics websiteId days) s1)"

definition loadWebsiteMetrics :: "host \<Rightarrow> int \<Rightarrow> metric list fetch_result \<Rightarrow> dashboard \<Rightarrow> dashboard" where
  "loadWebsiteMetrics h websiteId r s =
     (let s2 = loadWebsiteMetrics_pending websiteId s;
          s3 = (case r of
                  Response ok (Some metrics) \<Rightarrow> updateChart h metrics (displayMetrics h metrics s2)
                | _ \<Rightarrow> showNotification ''Error loading metrics'' ''error''
                         (console_line ''Error loading metrics:'' s2))
      in hideLoading s3)"

definition selectWebsite_pending :: "int \<Rightarrow> string \<Rightarrow> dashboard \<Rightarrow> dashboard" where
  "selectWebsite_pending websiteId websiteName s =
     (let s1 = s\<lparr>currentWebsiteId := Some websiteId\<rparr>;
          s2 = s1\<lparr>selected_website_name := websiteName @ '' - Metrics''\<rparr>;
          s3 = s2\<lparr>metrics_section_display := ''block''\<rparr>
      in loadWebsiteMetrics_pending websiteId s3)"

definition selectWebsite :: "host \<Rightarrow> int \<Rightarrow> string \<Rightarrow> metric list fetch_result \<Rightarrow> dashboard \<Rightarrow> dashboard" where
  "selectWebsite h websiteId websiteName r s =
     (let s1 = s\<lparr>currentWebsiteId := Some websiteId\<rparr>;
          s2 = s1\<lparr>selected_website_name := websiteName @ '' - Metrics''\<rparr>;
          s3 = s2\<lparr>metrics_section_display := ''block''\<rparr>
      in loadWebsiteMetrics h websiteId r s3)"

subsection \<open>Adding and deleting a website\<close>

definition showAddWebsiteModal :: "dashboard \<Rightarrow> dashboard" where
  "showAddWebsiteModal s = s\<lparr>add_website_modal_display := ''block''\<rparr>"

text \<open>\<^verbatim>\<open>form.reset()\<close> puts the two inputs back to their initial, empty values.\<close>

definition hideAddWebsiteModal :: "dashboard \<Rightarrow> dashboard" where
  "hideAddWebsiteModal s = s\<lparr>add_website_modal_display := ''none'',
                               website_name_value := '''', website_url_value := ''''\<rparr>"

definition handleAddWebsite_pending :: "dashboard \<Rightarrow> dashboard" where
  "handleAddWebsite_pending s =
     (let name_input = website_name_value s;
          url_input = website_url_value s
      in fetch (POST_websites name_input url_input) (showLoading s))"

definition handleAddWebsite ::
  "string option fetch_result \<Rightarrow> website list fetch_result \<Rightarrow> dashboard \<Rightarrow> dashboard" where
  "handleAddWebsite r rl s =
     (let s1 = handleAddWebsite_pending s;
          caught = showNotification ''Error adding website'' ''error''
                     (console_line ''Error adding website:'' s1);
          s2 = (case r of
                  Rejected \<Rightarrow> caught
                | Response ok body \<Rightarrow>
                    if ok
                    then loadWebsites rl
                           (showNotification ''Website added successfully!'' ''success''
                              (hideAddWebsiteModal s1))
                    else (case body of
                            None \<Rightarrow> caught
                          | Some error_field \<Rightarrow>
                              showNotification (or_else error_field ''Error adding website'') ''error'' s1))
      in hideLoading s2)"

text \<open>\<open>confirmed\<close> is the answer of the \<^verbatim>\<open>confirm\<close> dialog.\<close>

definition deleteWebsite_pending :: "int \<Rightarrow> dashboard \<Rightarrow> dashboard" where
  "deleteWebsite_pending websiteId s = fetch (DELETE_website websiteId) (showLoading s)"

definition deleteWebsite ::
  "int \<Rightarrow> bool \<Rightarrow> unit fetch_result \<Rightarrow> website list fetch_result \<Rightarrow> dashboard \<Rightarrow> dashboard" where
  "deleteWebsite websiteId confirmed r rl s =
     (if \<not> confirmed then s
      else
        let s1 = deleteWebsite_pending websiteId s;
            s2 = (case r of
                    Rejected \<Rightarrow> showNotification ''Error deleting website'' ''error''
                                 (console_line ''Error deleting website:'' s1)
                  | Response ok body \<Rightarrow>
                      if ok
                      then (let s3 = loadWebsites rl
                                       (showNotification ''Website deleted successfully!'' ''success'' s1)
                            in if currentWebsiteId s3 = Some websiteId
                               then s3\<lparr>metrics_section_display := ''none'', currentWebsiteId := None\<rparr>
                               else s3)
                      else showNotification ''Error deleting website'' ''error'' s1)
        in hideLoading s2)"

subsection \<open>Audit and refresh\<close>

definition runAudit_pending :: "dashboard \<Rightarrow> dashboard" where
  "runAudit_pending s = fetch (POST_audit (the (currentWebsiteId s))) (showLoading s)"

text \<open>
  The \<^verbatim>\<open>catch\<close> block of \<^verbatim>\<open>runAudit\<close> (lines 332 to 334), entered from the state in which
  the exception is thrown.
\<close>

definition runAudit_caught :: "dashboard \<Rightarrow> dashboard" where
  "runAudit_caught s = showNotification ''Error running audit'' ''error''
                         (console_line ''Error running audit:'' s)"

text \<open>
  With a body \<^verbatim>\<open>null\<close>, reading \<^verbatim>\<open>result.results\<close> on line 328 throws after the
  notification of line 326 is shown, and reading \<^verbatim>\<open>result.error\<close> on line 330 throws
  before anything is shown. A missing \<^verbatim>\<open>results\<close> is logged as \<^verbatim>\<open>undefined\<close>.
\<close>

definition runAudit :: "audit_json option fetch_result \<Rightarrow> dashboard \<Rightarrow> dashboard" where
  "runAudit r s =
     (if \<not> truthy_id (currentWebsiteId s)
      then showNotification ''Please select a website first'' ''error'' s
      else
        let s1 = runAudit_pending s;
            s2 = (case r of
                    Rejected \<Rightarrow> runAudit_caught s1
                  | Response ok None \<Rightarrow> runAudit_caught s1
                  | Response ok (Some result) \<Rightarrow>
                      if ok
                      then (let s3 = showNotification ''Audit completed successfully!'' ''success'' s1
                            in case result of
                                 None \<Rightarrow> runAudit_caught s3
                               | Some v \<Rightarrow>
                                   console_line
                                     (''Audit results: '' @
                                        (case results v of None \<Rightarrow> ''undefined'' | Some t \<Rightarrow> t)) s3)
                      else (case result of
                              None \<Rightarrow> runAudit_caught s1
                            | Some v \<Rightarrow>
                                showNotification (or_else (error v) ''Error running audit'') ''error'' s1))
        in hideLoading s2)"

definition refreshData ::
  "host \<Rightarrow> website list fetch_result \<Rightarrow> metric list fetch_result \<Rightarrow> dashboard \<Rightarrow> dashboard" where
  "refreshData h rl rm s =
     (let s1 = loadWebsites rl s;
          s2 = (if truthy_id (currentWebsiteId s1)
                then loadWebsiteMetrics h (the (currentWebsiteId s1)) rm s1
                else s1)
      in showNotification ''Data refreshed!'' ''success'' s2)"

subsection \<open>Events\<close>

text \<open>
  What the page can do to the script, each with the outcomes of the requests it leads to:
  the load event (line 6), a click on a card or on its delete button, the form's submit, a
  change of the date range (line 17), a click on the modal (line 24, \<open>True\<close> when it hits
  the backdrop itself), the buttons of the page that call \<^verbatim>\<open>showAddWebsiteModal\<close>,
  \<^verbatim>\<open>hideAddWebsiteModal\<close>, \<^verbatim>\<open>runAudit\<close> and \<^verbatim>\<open>refreshData\<close>, and typing into the form.

  The \<^verbatim>\<open>onclick\<close> attributes of a card hold script text into which the website's id and
  name are spliced (lines 66 and 73), and a click runs that text. Where the text is the
  call it is written to be, the click is the event \<open>ClickCard\<close> or \<open>ClickDelete\<close> with the
  arguments the call passes. The events range over all arguments: nothing is assumed on
  which text a given card holds. A text that does not compile, as with an apostrophe in
  the name, gives no event. A name that closes the string and carries script of its own
  is outside this model.
\<close>

datatype action =
    DOMContentLoaded "website list fetch_result"
  | ClickCard int string "metric list fetch_result"
  | ClickDelete int bool "unit fetch_result" "website list fetch_result"
  | SubmitForm "string option fetch_result" "website list fetch_result"
  | ChangeDateRange string "metric list fetch_result"
  | ClickModal bool
  | ClickShowModal
  | ClickHideModal
  | ClickRunAudit "audit_json option fetch_result"
  | ClickRefresh "website list fetch_result" "metric list fetch_result"
  | TypeName string
  | TypeUrl string

definition step :: "host \<Rightarrow> action \<Rightarrow> dashboard \<Rightarrow> dashboard" where
  "step h a s =
     (case a of
        DOMContentLoaded rl \<Rightarrow> loadWebsites rl s
      | ClickCard websiteId websiteName rm \<Rightarrow> selectWebsite h websiteId websiteName rm s
      | ClickDelete websiteId confirmed r rl \<Rightarrow> deleteWebsite websiteId confirmed r rl s
      | SubmitForm r rl \<Rightarrow> handleAddWebsite r rl s
      | ChangeDateRange v rm \<Rightarrow>
          (let s1 = s\<lparr>date_range_value := v\<rparr>
           in if truthy_id (currentWebsiteId s1)
              then loadWebsiteMetrics h (the (currentWebsiteId s1)) rm s1
              else s1)
      | ClickModal backdrop \<Rightarrow> (if backdrop then hideAddWebsiteModal s else s)
      | ClickShowModal \<Rightarrow> showAddWebsiteModal s
      | ClickHideModal \<Rightarrow> hideAddWebsiteModal s
      | ClickRunAudit r \<Rightarrow> runAudit r s
      | ClickRefresh rl rm \<Rightarrow> refreshData h rl rm s
      | TypeName v \<Rightarrow> s\<lparr>website_name_value := v\<rparr>
      | TypeUrl v \<Rightarrow> s\<lparr>website_url_value := v\<rparr>)"

definition run :: "host \<Rightarrow> action list \<Rightarrow> dashboard \<Rightarrow> dashboard" where
  "run h acts s = foldl (\<lambda>s a. step h a s) s acts"

section \<open>Notions the properties are stated with\<close>

subsection \<open>Integer fields\<close>





subsection \<open>Decimal numerals\<close>







subsection \<open>The two averages\<close>






subsection \<open>Sample data\<close>





definition acme :: website where
  "acme = \<lparr>website_id = 1, name = ''Acme'', url = ''acme.com'', is_verified = True,
            last_audit = Some ''2024-01-01''\<rparr>"

definition pending_site :: website where
  "pending_site = \<lparr>website_id = 2, name = ''Beta'', url = ''beta.org'', is_verified = False,
                    last_audit = None\<rparr>"

text \<open>
  The blank page after its load event brought the one website \<open>acme\<close> and the user
  clicked its card (the metrics request answered with an empty array).
\<close>

definition acme_selected :: dashboard where
  "acme_selected = run en_US [DOMContentLoaded (Response True (Some [acme])),
                              ClickCard 1 ''Acme'' (Response True (Some []))] blank_page"

subsection \<open>Invariants\<close>

text \<open>
  The chart instances that exist are exactly the one the global \<open>performanceChart\<close>
  refers to, if it refers to one; and that one was made by an earlier \<^verbatim>\<open>new Chart\<close>.
\<close>

definition chart_owned :: "dashboard \<Rightarrow> bool" where
  "chart_owned s =
     (map chart_id (chart_instances s) = (case performanceChart s of None \<Rightarrow> [] | Some c \<Rightarrow> [c]) \<and>
      (case performanceChart s of None \<Rightarrow> True | Some c \<Rightarrow> c < charts_created s))"

text \<open>
  The script keeps no copy of the website list: the last list it loaded is the one in the
  grid. \<open>listed_ids\<close> are the ids a click on a card of the grid can select.
\<close>

definition listed_ids :: "grid_html \<Rightarrow> int list" where
  "listed_ids g = map (\<lambda>c. fst (select_args c)) (cards_of g)"

definition selection_listed :: "dashboard \<Rightarrow> bool" where
  "selection_listed s =
     (case currentWebsiteId s of None \<Rightarrow> True | Some i \<Rightarrow> i \<in> set (listed_ids (websites_grid s)))"

text \<open>
  \<open>still_listed cur rl\<close>: the outcome \<open>rl\<close> of a list request does not bring a list from
  which the selection \<open>cur\<close> is missing.
\<close>

definition still_listed :: "int option \<Rightarrow> website list fetch_result \<Rightarrow> bool" where
  "still_listed cur rl =
     (case rl of
        Response ok (Some ws) \<Rightarrow> (case cur of None \<Rightarrow> True | Some i \<Rightarrow> i \<in> set (map website_id ws))
      | _ \<Rightarrow> True)"

section \<open>Integers in double arithmetic\<close>






section \<open>The error of one rounding\<close>

lemma pow2_powi: "pow2 k = power_int 2 k"
  by (simp add: pow2_def power_int_def inverse_eq_divide power_one_over)



lemma pow2_less: "i < j \<Longrightarrow> pow2 i < pow2 j"
  by (simp add: pow2_powi power_int_strict_increasing)











text \<open>
  What is rounded to two decimals is the double, not the exact quotient: for 3 clicks in
  20000 impressions the exact percentage is 0.015, the two rounded steps give the double
  next below it, and \<^verbatim>\<open>toFixed(2)\<close> writes \<open>0.01\<close>.
\<close>

lemma ctr_rounds_the_double:
  "num_mul (num_div 3 20000) 100 < 15 / 1000"
  "15 / 1000 - num_mul (num_div 3 20000) 100 < 1 / 10 ^ 17"
  "toFixed 2 (num_mul (num_div 3 20000) 100) = ''0.01''"
  by code_simp+

section \<open>What toFixed writes\<close>


declare digits.simps [simp del]












section \<open>The error of a sum and of a mean\<close>












section \<open>Rounding to decimals\<close>







section \<open>The summary cards\<close>
















text \<open>
  C2. For the empty metrics array the four summary fields are set to the literal texts
  \<open>0\<close>, \<open>0\<close>, \<open>0%\<close> and \<open>0\<close>.
\<close>

theorem displayMetrics_empty:
  "total_clicks (displayMetrics h [] s) = ''0'' \<and>
   total_impressions (displayMetrics h [] s) = ''0'' \<and>
   avg_ctr (displayMetrics h [] s) = ''0%'' \<and>
   avg_position (displayMetrics h [] s) = ''0''"
  by (simp add: displayMetrics_def)





section \<open>What each function leaves alone\<close>

lemmas prim_defs = showLoading_def hideLoading_def showNotification_def console_line_def fetch_def
  loadWebsites_pending_def loadWebsiteMetrics_pending_def handleAddWebsite_pending_def
  deleteWebsite_pending_def runAudit_pending_def runAudit_caught_def

lemma loadWebsites_frame:
  "currentWebsiteId (loadWebsites r s) = currentWebsiteId s"
  "metrics_section_display (loadWebsites r s) = metrics_section_display s"
  "loading_overlay_display (loadWebsites r s) = ''none''"
  "performanceChart (loadWebsites r s) = performanceChart s"
  "chart_instances (loadWebsites r s) = chart_instances s"
  "charts_created (loadWebsites r s) = charts_created s"
  "selected_website_name (loadWebsites r s) = selected_website_name s"
  by (simp_all add: loadWebsites_def displayWebsites_def prim_defs Let_def
      split: fetch_result.splits option.splits)

lemma displayMetrics_frame:
  "currentWebsiteId (displayMetrics h ms s) = currentWebsiteId s"
  "metrics_section_display (displayMetrics h ms s) = metrics_section_display s"
  "loading_overlay_display (displayMetrics h ms s) = loading_overlay_display s"
  "performanceChart (displayMetrics h ms s) = performanceChart s"
  "chart_instances (displayMetrics h ms s) = chart_instances s"
  "charts_created (displayMetrics h ms s) = charts_created s"
  "selected_website_name (displayMetrics h ms s) = selected_website_name s"
  "websites_grid (displayMetrics h ms s) = websites_grid s"
  "requests (displayMetrics h ms s) = requests s"
  by (simp_all add: displayMetrics_def Let_def)

lemma updateChart_frame:
  "currentWebsiteId (updateChart h ms s) = currentWebsiteId s"
  "metrics_section_display (updateChart h ms s) = metrics_section_display s"
  "loading_overlay_display (updateChart h ms s) = loading_overlay_display s"
  "selected_website_name (updateChart h ms s) = selected_website_name s"
  "websites_grid (updateChart h ms s) = websites_grid s"
  "requests (updateChart h ms s) = requests s"
  by (simp_all add: updateChart_def destroy_existing_def chart_destroy_def new_Chart_def Let_def
      split: option.splits)

lemma loadWebsiteMetrics_frame:
  "currentWebsiteId (loadWebsiteMetrics h i r s) = currentWebsiteId s"
  "metrics_section_display (loadWebsiteMetrics h i r s) = metrics_section_display s"
  "loading_overlay_display (loadWebsiteMetrics h i r s) = ''none''"
  "selected_website_name (loadWebsiteMetrics h i r s) = selected_website_name s"
  "websites_grid (loadWebsiteMetrics h i r s) = websites_grid s"
  "requests (loadWebsiteMetrics h i r s) = requests s @ [GET_metrics i (date_range_value s)]"
  by (simp_all add: loadWebsiteMetrics_def updateChart_frame displayMetrics_frame prim_defs Let_def
      split: fetch_result.splits option.splits)

lemma acme_selected_fields:
  "currentWebsiteId acme_selected = Some 1"
  "metrics_section_display acme_selected = ''block''"
  "loading_overlay_display acme_selected = ''none''"
  "websites_grid acme_selected = Cards [card_of acme]"
  by code_simp+

section \<open>The website list\<close>

lemma listed_ids_displayWebsites:
  "listed_ids (websites_grid (displayWebsites ws s)) = map website_id ws"
  by (simp add: displayWebsites_def listed_ids_def cards_of_def card_of_def comp_def)

lemma loadWebsites_grid:
  "websites_grid (loadWebsites rl s) =
     (case rl of Response ok (Some ws) \<Rightarrow> websites_grid (displayWebsites ws s)
               | _ \<Rightarrow> websites_grid s)"
  by (simp add: loadWebsites_def displayWebsites_def prim_defs Let_def
      split: fetch_result.splits option.splits)

text \<open>
  C9. For a website list of length 0 the grid holds the empty-state prompt; for a list
  of length at least 1 it holds exactly one card per website, in the order of the list,
  each naming its website (name, address, and the id in both handlers) and showing
  \<open>Verified\<close> when \<open>is_verified\<close> is true and \<open>Pending\<close> when it is false.
\<close>

theorem displayWebsites_cards:
  "(length ws = 0 \<longrightarrow> websites_grid (displayWebsites ws s) = EmptyState) \<and>
   (1 \<le> length ws \<longrightarrow>
      (\<exists>cs. websites_grid (displayWebsites ws s) = Cards cs \<and> length cs = length ws \<and>
         (\<forall>k<length ws.
            card_name (cs ! k) = name (ws ! k) \<and>
            card_url (cs ! k) = url (ws ! k) \<and>
            select_args (cs ! k) = (website_id (ws ! k), name (ws ! k)) \<and>
            delete_arg (cs ! k) = website_id (ws ! k) \<and>
            status_value (cs ! k) = (if is_verified (ws ! k) then ''Verified'' else ''Pending''))))"
proof (cases ws)
  case Nil
  then show ?thesis by (simp add: displayWebsites_def)
next
  case (Cons w ws')
  then have "websites_grid (displayWebsites ws s) = Cards (map card_of ws)"
    by (simp add: displayWebsites_def)
  moreover have "\<forall>k<length ws.
      card_name (map card_of ws ! k) = name (ws ! k) \<and>
      card_url (map card_of ws ! k) = url (ws ! k) \<and>
      select_args (map card_of ws ! k) = (website_id (ws ! k), name (ws ! k)) \<and>
      delete_arg (map card_of ws ! k) = website_id (ws ! k) \<and>
      status_value (map card_of ws ! k) = (if is_verified (ws ! k) then ''Verified'' else ''Pending'')"
    by (simp add: card_of_def)
  ultimately show ?thesis
    using Cons by (intro conjI impI exI[of _ "map card_of ws"]) simp_all
qed

theorem displayWebsites_cards_witness:
  "length ([] :: website list) = 0 \<and>
   websites_grid (displayWebsites [] blank_page) = EmptyState \<and>
   1 \<le> length [acme, pending_site] \<and>
   (\<exists>cs. websites_grid (displayWebsites [acme, pending_site] blank_page) = Cards cs \<and>
         length cs = 2 \<and>
         card_name (cs ! 0) = ''Acme'' \<and> status_value (cs ! 0) = ''Verified'' \<and>
         card_name (cs ! 1) = ''Beta'' \<and> status_value (cs ! 1) = ''Pending'')"
proof -
  have e: "websites_grid (displayWebsites [] blank_page) = EmptyState"
    using displayWebsites_cards[of "[]" blank_page] by simp
  obtain cs where cs: "websites_grid (displayWebsites [acme, pending_site] blank_page) = Cards cs"
      "length cs = 2"
      "\<forall>k<2. card_name (cs ! k) = name ([acme, pending_site] ! k) \<and>
             status_value (cs ! k) =
               (if is_verified ([acme, pending_site] ! k) then ''Verified'' else ''Pending'')"
    using displayWebsites_cards[of "[acme, pending_site]" blank_page] by auto
  from cs(3) have "card_name (cs ! 0) = ''Acme'' \<and> status_value (cs ! 0) = ''Verified''"
    by (simp add: acme_def)
  moreover from cs(3) have "card_name (cs ! 1) = ''Beta'' \<and> status_value (cs ! 1) = ''Pending''"
    by (simp add: pending_site_def)
  ultimately show ?thesis
    using e cs(1,2) by simp
qed

section \<open>Selection and deletion\<close>

lemma loadWebsites_listed:
  "selection_listed s \<Longrightarrow> still_listed (currentWebsiteId s) rl \<Longrightarrow>
   selection_listed (loadWebsites rl s)"
  by (auto simp add: selection_listed_def still_listed_def loadWebsites_frame loadWebsites_grid
      listed_ids_displayWebsites split: fetch_result.splits option.splits)

lemma selectWebsite_listed:
  "i \<in> set (listed_ids (websites_grid s)) \<Longrightarrow> selection_listed (selectWebsite h i n r s)"
  by (simp add: selection_listed_def selectWebsite_def Let_def loadWebsiteMetrics_frame)

text \<open>
  \<open>deleteWebsite\<close> reloads the list and compares the selection only after a confirmed
  request that came back \<^verbatim>\<open>ok\<close>.
\<close>

lemma deleteWebsite_grid:
  "websites_grid (deleteWebsite i c rd rl s) =
     (if c \<and> (\<exists>b. rd = Response True b) then websites_grid (loadWebsites rl s)
      else websites_grid s)"
  by (auto simp add: deleteWebsite_def loadWebsites_grid displayWebsites_def prim_defs Let_def
      split: fetch_result.splits option.splits)

lemma deleteWebsite_current:
  "currentWebsiteId (deleteWebsite i c rd rl s) =
     (if c \<and> (\<exists>b. rd = Response True b) \<and> currentWebsiteId s = Some i then None
      else currentWebsiteId s)"
  by (auto simp add: deleteWebsite_def loadWebsites_frame prim_defs Let_def
      split: fetch_result.splits option.splits)

lemma deleteWebsite_section:
  "metrics_section_display (deleteWebsite i c rd rl s) =
     (if c \<and> (\<exists>b. rd = Response True b) \<and> currentWebsiteId s = Some i then ''none''
      else metrics_section_display s)"
  by (auto simp add: deleteWebsite_def loadWebsites_frame prim_defs Let_def
      split: fetch_result.splits option.splits)

lemma deleteWebsite_listed:
  assumes "selection_listed s"
    and "still_listed (if currentWebsiteId s = Some i then None else currentWebsiteId s) rl"
  shows "selection_listed (deleteWebsite i c rd rl s)"
proof (cases "c \<and> (\<exists>b. rd = Response True b)")
  case False
  then show ?thesis
    using assms(1)
    by (auto simp add: selection_listed_def deleteWebsite_grid deleteWebsite_current
        split: option.splits)
next
  case True
  show ?thesis
  proof (cases "currentWebsiteId s = Some i")
    case same: True
    with True show ?thesis
      by (simp add: selection_listed_def deleteWebsite_current)
  next
    case other: False
    with assms have "selection_listed (loadWebsites rl s)"
      by (simp add: loadWebsites_listed)
    with True other show ?thesis
      by (auto simp add: selection_listed_def deleteWebsite_grid deleteWebsite_current
          loadWebsites_frame split: option.splits)
  qed
qed

text \<open>
  C4, as the code has it. \<open>loadWebsites\<close> never changes \<open>currentWebsiteId\<close>: a selection
  whose website is missing from a reloaded list is not cleared. The selection is cleared
  by a confirmed, successful \<open>deleteWebsite\<close> of the selected website. So, from a state
  where a non-null \<open>currentWebsiteId\<close> references a website of the last-loaded list, the
  same holds after a list load and after a deletion provided the list they load still
  holds the selected website (the one just deleted apart), and after the selection of a
  website of the list.
\<close>

theorem selection_listed_preserved:
  assumes "selection_listed s"
  shows "currentWebsiteId (loadWebsites rl s) = currentWebsiteId s \<and>
         (still_listed (currentWebsiteId s) rl \<longrightarrow> selection_listed (loadWebsites rl s)) \<and>
         (i \<in> set (listed_ids (websites_grid s)) \<longrightarrow> selection_listed (selectWebsite h i n rm s)) \<and>
         (still_listed (if currentWebsiteId s = Some i then None else currentWebsiteId s) rl \<longrightarrow>
            selection_listed (deleteWebsite i c rd rl s)) \<and>
         (currentWebsiteId s = Some i \<longrightarrow>
            currentWebsiteId (deleteWebsite i True (Response True b) rl s) = None)"
  using assms
  by (simp add: loadWebsites_frame loadWebsites_listed selectWebsite_listed deleteWebsite_listed
      deleteWebsite_current)

theorem selection_listed_preserved_witness:
  "selection_listed acme_selected \<and>
   currentWebsiteId (loadWebsites (Response True (Some [acme, pending_site])) acme_selected) = Some 1 \<and>
   still_listed (currentWebsiteId acme_selected) (Response True (Some [acme, pending_site])) \<and>
   selection_listed (loadWebsites (Response True (Some [acme, pending_site])) acme_selected) \<and>
   1 \<in> set (listed_ids (websites_grid acme_selected)) \<and>
   selection_listed (selectWebsite en_US 1 ''Acme'' Rejected acme_selected) \<and>
   still_listed (if currentWebsiteId acme_selected = Some 1 then None
                 else currentWebsiteId acme_selected) (Response True (Some [])) \<and>
   selection_listed (deleteWebsite 1 True (Response True None) (Response True (Some [])) acme_selected) \<and>
   currentWebsiteId (deleteWebsite 1 True (Response True None) (Response True (Some [])) acme_selected)
     = None"
proof -
  have a: "selection_listed acme_selected"
    by code_simp
  have b: "still_listed (currentWebsiteId acme_selected) (Response True (Some [acme, pending_site]))"
    by code_simp
  have c: "1 \<in> set (listed_ids (websites_grid acme_selected))"
    by code_simp
  have d: "still_listed (if currentWebsiteId acme_selected = Some 1 then None
                         else currentWebsiteId acme_selected) (Response True (Some []))"
    by code_simp
  show ?thesis
    using selection_listed_preserved[OF a, of "Response True (Some [acme, pending_site])"
            1 en_US "''Acme''" Rejected True "Response True None" None]
          selection_listed_preserved[OF a, of "Response True (Some [])"
            1 en_US "''Acme''" Rejected True "Response True None" None]
          a b c d acme_selected_fields(1)
    by simp
qed

text \<open>
  The claim as stated fails: with \<open>acme\<close> selected from the list, a list load that brings
  the empty list leaves the selection on website 1, which the list no longer holds.
\<close>

theorem selection_not_cleared_on_reload:
  "selection_listed acme_selected \<and>
   currentWebsiteId (loadWebsites (Response True (Some [])) acme_selected) = Some 1 \<and>
   websites_grid (loadWebsites (Response True (Some [])) acme_selected) = EmptyState \<and>
   \<not> selection_listed (loadWebsites (Response True (Some [])) acme_selected)"
  by code_simp

text \<open>
  C5. For every confirmed \<open>deleteWebsite(id)\<close> whose request comes back \<^verbatim>\<open>ok\<close>: if \<open>id\<close>
  is the current selection, the selection is cleared and the metrics panel hidden; if it
  is not, \<open>currentWebsiteId\<close> and the panel's \<^verbatim>\<open>display\<close> are as before. When the request
  fails (the promise rejects, or the response is not \<^verbatim>\<open>ok\<close>), both are as before.
\<close>

theorem deleteWebsite_selection:
  "(r = Response True b \<longrightarrow>
      (currentWebsiteId s = Some i \<longrightarrow>
         currentWebsiteId (deleteWebsite i True r rl s) = None \<and>
         metrics_section_display (deleteWebsite i True r rl s) = ''none'') \<and>
      (currentWebsiteId s \<noteq> Some i \<longrightarrow>
         currentWebsiteId (deleteWebsite i True r rl s) = currentWebsiteId s \<and>
         metrics_section_display (deleteWebsite i True r rl s) = metrics_section_display s)) \<and>
   (r = Rejected \<or> r = Response False b \<longrightarrow>
      currentWebsiteId (deleteWebsite i True r rl s) = currentWebsiteId s \<and>
      metrics_section_display (deleteWebsite i True r rl s) = metrics_section_display s)"
  by (auto simp add: deleteWebsite_current deleteWebsite_section)

theorem deleteWebsite_selection_witness:
  "currentWebsiteId acme_selected = Some 1 \<and>
   currentWebsiteId (deleteWebsite 1 True (Response True None) (Response True (Some [])) acme_selected)
     = None \<and>
   metrics_section_display
     (deleteWebsite 1 True (Response True None) (Response True (Some [])) acme_selected) = ''none'' \<and>
   currentWebsiteId acme_selected \<noteq> Some 2 \<and>
   currentWebsiteId (deleteWebsite 2 True (Response True None) (Response True (Some [acme])) acme_selected)
     = Some 1 \<and>
   metrics_section_display
     (deleteWebsite 2 True (Response True None) (Response True (Some [acme])) acme_selected) = ''block'' \<and>
   currentWebsiteId (deleteWebsite 1 True Rejected (Response True (Some [])) acme_selected) = Some 1 \<and>
   metrics_section_display (deleteWebsite 1 True Rejected (Response True (Some [])) acme_selected)
     = ''block'' \<and>
   currentWebsiteId (deleteWebsite 1 True (Response False None) (Response True (Some [])) acme_selected)
     = Some 1"
  using deleteWebsite_selection[of "Response True None" None acme_selected 1 "Response True (Some [])"]
        deleteWebsite_selection[of "Response True None" None acme_selected 2 "Response True (Some [acme])"]
        deleteWebsite_selection[of Rejected None acme_selected 1 "Response True (Some [])"]
        deleteWebsite_selection[of "Response False None" None acme_selected 1 "Response True (Some [])"]
  by (simp add: acme_selected_fields)

text \<open>
  C10. For every call \<open>selectWebsite(id, name)\<close>: while its metrics request is in
  flight, \<open>currentWebsiteId\<close> is \<open>id\<close>, the header reads \<open>name - Metrics\<close> and the
  metrics panel is shown, for the request is issued by \<open>loadWebsiteMetrics\<close> run on the
  state that has the three. They are the same when the call ends, whatever the outcome of
  the request, a rejected promise and an unreadable body included; the call issues that
  one request.
\<close>

theorem selectWebsite_persists:
  "selectWebsite_pending i n s =
     loadWebsiteMetrics_pending i
       (s\<lparr>currentWebsiteId := Some i, selected_website_name := n @ '' - Metrics'',
          metrics_section_display := ''block''\<rparr>) \<and>
   currentWebsiteId (selectWebsite_pending i n s) = Some i \<and>
   selected_website_name (selectWebsite_pending i n s) = n @ '' - Metrics'' \<and>
   metrics_section_display (selectWebsite_pending i n s) = ''block'' \<and>
   requests (selectWebsite_pending i n s) = requests s @ [GET_metrics i (date_range_value s)] \<and>
   currentWebsiteId (selectWebsite h i n r s) = Some i \<and>
   selected_website_name (selectWebsite h i n r s) = n @ '' - Metrics'' \<and>
   metrics_section_display (selectWebsite h i n r s) = ''block'' \<and>
   requests (selectWebsite h i n r s) = requests (selectWebsite_pending i n s)"
proof -
  have pending: "selectWebsite_pending i n s =
     loadWebsiteMetrics_pending i
       (s\<lparr>currentWebsiteId := Some i, selected_website_name := n @ '' - Metrics'',
          metrics_section_display := ''block''\<rparr>)"
    by (simp add: selectWebsite_pending_def Let_def)
  have in_flight: "currentWebsiteId (selectWebsite_pending i n s) = Some i"
    "selected_website_name (selectWebsite_pending i n s) = n @ '' - Metrics''"
    "metrics_section_display (selectWebsite_pending i n s) = ''block''"
    "requests (selectWebsite_pending i n s) = requests s @ [GET_metrics i (date_range_value s)]"
    by (simp_all add: pending loadWebsiteMetrics_pending_def showLoading_def fetch_def Let_def)
  have ended: "currentWebsiteId (selectWebsite h i n r s) = Some i"
    "selected_website_name (selectWebsite h i n r s) = n @ '' - Metrics''"
    "metrics_section_display (selectWebsite h i n r s) = ''block''"
    "requests (selectWebsite h i n r s) = requests s @ [GET_metrics i (date_range_value s)]"
    by (simp_all add: selectWebsite_def loadWebsiteMetrics_frame Let_def)
  show ?thesis
    using pending in_flight ended by simp
qed

section \<open>The loading overlay\<close>

text \<open>
  C7. Each of \<open>loadWebsites\<close>, \<open>loadWebsiteMetrics\<close>, \<open>handleAddWebsite\<close>, a confirmed
  \<open>deleteWebsite\<close> and a \<open>runAudit\<close> with a truthy selection shows the loading overlay
  while its request is in flight, and ends with the overlay hidden whatever the outcomes
  with which its requests settle (a rejected promise, a response that is not \<^verbatim>\<open>ok\<close>, a
  body that cannot be read). The two paths that return before showing it, a
  \<open>deleteWebsite\<close> that is not confirmed and a \<open>runAudit\<close> with no truthy selection, leave
  the overlay as it was.
\<close>

theorem loading_overlay_released:
  "loading_overlay_display (loadWebsites_pending s) = ''flex'' \<and>
   loading_overlay_display (loadWebsites rl s) = ''none'' \<and>
   loading_overlay_display (loadWebsiteMetrics_pending i s) = ''flex'' \<and>
   loading_overlay_display (loadWebsiteMetrics h i rm s) = ''none'' \<and>
   loading_overlay_display (handleAddWebsite_pending s) = ''flex'' \<and>
   loading_overlay_display (handleAddWebsite ra rl s) = ''none'' \<and>
   loading_overlay_display (deleteWebsite_pending i s) = ''flex'' \<and>
   loading_overlay_display (deleteWebsite i True rd rl s) = ''none'' \<and>
   deleteWebsite i False rd rl s = s \<and>
   (truthy_id (currentWebsiteId s) \<longrightarrow>
      loading_overlay_display (runAudit_pending s) = ''flex'' \<and>
      loading_overlay_display (runAudit rr s) = ''none'') \<and>
   (\<not> truthy_id (currentWebsiteId s) \<longrightarrow>
      loading_overlay_display (runAudit rr s) = loading_overlay_display s)"
proof -
  have shown: "loading_overlay_display (loadWebsites_pending s) = ''flex''"
    "loading_overlay_display (loadWebsiteMetrics_pending i s) = ''flex''"
    "loading_overlay_display (handleAddWebsite_pending s) = ''flex''"
    "loading_overlay_display (deleteWebsite_pending i s) = ''flex''"
    "loading_overlay_display (runAudit_pending s) = ''flex''"
    by (simp_all add: prim_defs Let_def)
  have add: "loading_overlay_display (handleAddWebsite ra rl s) = ''none''"
    by (simp add: handleAddWebsite_def hideLoading_def Let_def)
  have del: "loading_overlay_display (deleteWebsite i True rd rl s) = ''none''"
    by (simp add: deleteWebsite_def hideLoading_def Let_def)
  have unconfirmed: "deleteWebsite i False rd rl s = s"
    by (simp add: deleteWebsite_def)
  have audit: "truthy_id (currentWebsiteId s) \<longrightarrow>
      loading_overlay_display (runAudit rr s) = ''none''"
    by (simp add: runAudit_def hideLoading_def Let_def)
  have no_audit: "\<not> truthy_id (currentWebsiteId s) \<longrightarrow>
      loading_overlay_display (runAudit rr s) = loading_overlay_display s"
    by (simp add: runAudit_def showNotification_def)
  show ?thesis
    using shown add del unconfirmed audit no_audit
    by (simp add: loadWebsites_frame loadWebsiteMetrics_frame)
qed

theorem loading_overlay_released_witness:
  "loading_overlay_display (loadWebsites Rejected (showLoading blank_page)) = ''none'' \<and>
   loading_overlay_display (loadWebsiteMetrics en_US 1 (Response False None) blank_page) = ''none'' \<and>
   loading_overlay_display (handleAddWebsite (Response False None) Rejected blank_page) = ''none'' \<and>
   loading_overlay_display (deleteWebsite 1 True Rejected Rejected blank_page) = ''none'' \<and>
   truthy_id (currentWebsiteId acme_selected) \<and>
   loading_overlay_display (runAudit_pending acme_selected) = ''flex'' \<and>
   loading_overlay_display (runAudit Rejected acme_selected) = ''none'' \<and>
   \<not> truthy_id (currentWebsiteId (showLoading blank_page)) \<and>
   loading_overlay_display (runAudit Rejected (showLoading blank_page)) = ''flex''"
proof -
  have t: "truthy_id (currentWebsiteId acme_selected)"
    by (simp add: acme_selected_fields truthy_id_def)
  have f: "\<not> truthy_id (currentWebsiteId (showLoading blank_page))"
    by (simp add: showLoading_def blank_page_def page_start_def truthy_id_def)
  show ?thesis
    using loading_overlay_released[of "showLoading blank_page" Rejected]
          loading_overlay_released[of blank_page _ 1 en_US "Response False None"
            "Response False None" Rejected]
          loading_overlay_released[of blank_page _ 1 _ _ _ Rejected]
          loading_overlay_released[of acme_selected _ _ _ _ _ _ Rejected]
          loading_overlay_released[of "showLoading blank_page" _ _ _ _ _ _ Rejected]
          t f
    by (simp add: showLoading_def)
qed

section \<open>The audit\<close>

lemma runAudit_refused:
  "\<not> truthy_id (currentWebsiteId s) \<Longrightarrow>
   runAudit r s = showNotification ''Please select a website first'' ''error'' s"
  by (simp add: runAudit_def)

text \<open>
  C8 at the selection 0. With the website of id 0 selected (\<open>selectWebsite\<close> requests its
  metrics like those of any other), \<open>runAudit\<close> issues no request and shows the
  notification that asks to select a website first: the test \<^verbatim>\<open>!currentWebsiteId\<close> of
  line 312 takes the number 0 for no selection.
\<close>

theorem runAudit_id_zero:
  "currentWebsiteId (selectWebsite h 0 n rm s) = Some 0 \<and>
   requests (selectWebsite h 0 n rm s) = requests s @ [GET_metrics 0 (date_range_value s)] \<and>
   requests (runAudit r (selectWebsite h 0 n rm s)) = requests (selectWebsite h 0 n rm s) \<and>
   notifications (runAudit r (selectWebsite h 0 n rm s)) =
     notifications (selectWebsite h 0 n rm s) @ [(''Please select a website first'', ''error'')]"
proof -
  let ?s = "selectWebsite h 0 n rm s"
  have cur: "currentWebsiteId ?s = Some 0"
    by (simp add: selectWebsite_def loadWebsiteMetrics_frame Let_def)
  then have "\<not> truthy_id (currentWebsiteId ?s)"
    by (simp add: truthy_id_def)
  then have "runAudit r ?s = showNotification ''Please select a website first'' ''error'' ?s"
    by (rule runAudit_refused)
  then show ?thesis
    using cur by (simp add: showNotification_def selectWebsite_def loadWebsiteMetrics_frame Let_def)
qed

section \<open>The chart\<close>

lemma chart_owned_iff:
  "chart_owned s \<longleftrightarrow>
     (performanceChart s = None \<and> chart_instances s = []) \<or>
     (\<exists>c. performanceChart s = Some c \<and> map chart_id (chart_instances s) = [c] \<and>
          c < charts_created s)"
  by (auto simp add: chart_owned_def split: option.splits)

lemma chart_owned_page_start: "chart_owned (page_start page)"
  by (simp add: chart_owned_iff page_start_def)

lemma destroy_existing_owned:
  "chart_owned s \<Longrightarrow> chart_instances (destroy_existing s) = []"
  by (auto simp add: chart_owned_iff destroy_existing_def chart_destroy_def
      split: option.splits)

lemma destroy_existing_frame:
  "charts_created (destroy_existing s) = charts_created s"
  "performanceChart (destroy_existing s) = performanceChart s"
  by (simp_all add: destroy_existing_def chart_destroy_def split: option.splits)

lemma updateChart_owned:
  assumes "chart_owned s"
  shows "map chart_id (chart_instances (updateChart h ms s)) = [charts_created s]"
    and "performanceChart (updateChart h ms s) = Some (charts_created s)"
    and "charts_created (updateChart h ms s) = Suc (charts_created s)"
    and "chart_owned (updateChart h ms s)"
  using destroy_existing_owned[OF assms]
  by (simp_all add: updateChart_def new_Chart_def Let_def destroy_existing_frame chart_owned_iff)

lemma chart_owned_cong:
  "chart_instances t = chart_instances s \<Longrightarrow> performanceChart t = performanceChart s \<Longrightarrow>
   charts_created t = charts_created s \<Longrightarrow> chart_owned s \<Longrightarrow> chart_owned t"
  by (simp add: chart_owned_iff)

lemma chart_owned_untouched:
  "chart_owned (showNotification m t s) = chart_owned s"
  "chart_owned (hideAddWebsiteModal s) = chart_owned s"
  "chart_owned (showAddWebsiteModal s) = chart_owned s"
  "chart_owned (s\<lparr>date_range_value := v\<rparr>) = chart_owned s"
  "chart_owned (s\<lparr>website_name_value := v\<rparr>) = chart_owned s"
  "chart_owned (s\<lparr>website_url_value := v\<rparr>) = chart_owned s"
  by (simp_all add: chart_owned_iff showNotification_def hideAddWebsiteModal_def
      showAddWebsiteModal_def)

lemma loadWebsites_owned: "chart_owned s \<Longrightarrow> chart_owned (loadWebsites r s)"
  by (rule chart_owned_cong[of _ s]) (simp_all add: loadWebsites_frame)

lemma loadWebsiteMetrics_owned:
  assumes o: "chart_owned s"
  shows "chart_owned (loadWebsiteMetrics h i r s)"
proof (cases r)
  case Rejected
  with o show ?thesis
    by (simp add: loadWebsiteMetrics_def prim_defs chart_owned_iff)
next
  case (Response ok body)
  show ?thesis
  proof (cases body)
    case None
    with Response o show ?thesis
      by (simp add: loadWebsiteMetrics_def prim_defs chart_owned_iff)
  next
    case (Some ms)
    let ?s2 = "displayMetrics h ms (loadWebsiteMetrics_pending i s)"
    have "chart_owned ?s2"
      by (rule chart_owned_cong[OF _ _ _ o]) (simp_all add: displayMetrics_frame prim_defs)
    then have "chart_owned (updateChart h ms ?s2)"
      by (rule updateChart_owned(4))
    then show ?thesis
      using Response Some
      by (simp add: loadWebsiteMetrics_def Let_def hideLoading_def chart_owned_iff)
  qed
qed

lemma selectWebsite_owned: "chart_owned s \<Longrightarrow> chart_owned (selectWebsite h i n r s)"
  unfolding selectWebsite_def Let_def
  by (rule loadWebsiteMetrics_owned) (simp add: chart_owned_iff)

lemma handleAddWebsite_owned: "chart_owned s \<Longrightarrow> chart_owned (handleAddWebsite r rl s)"
  by (rule chart_owned_cong[of _ s])
     (simp_all add: handleAddWebsite_def loadWebsites_frame hideAddWebsiteModal_def prim_defs Let_def
      split: fetch_result.splits option.splits)

lemma deleteWebsite_owned: "chart_owned s \<Longrightarrow> chart_owned (deleteWebsite i c r rl s)"
  by (rule chart_owned_cong[of _ s])
     (simp_all add: deleteWebsite_def loadWebsites_frame prim_defs Let_def
      split: fetch_result.splits option.splits)

lemma runAudit_owned: "chart_owned s \<Longrightarrow> chart_owned (runAudit r s)"
  by (rule chart_owned_cong[of _ s])
     (simp_all add: runAudit_def prim_defs Let_def split: fetch_result.splits option.splits)

lemma refreshData_owned: "chart_owned s \<Longrightarrow> chart_owned (refreshData h rl rm s)"
  by (simp add: refreshData_def Let_def chart_owned_untouched loadWebsites_owned
      loadWebsiteMetrics_owned)

lemma step_owned: "chart_owned s \<Longrightarrow> chart_owned (step h a s)"
  by (cases a)
     (simp_all add: step_def Let_def loadWebsites_owned selectWebsite_owned deleteWebsite_owned
      handleAddWebsite_owned runAudit_owned refreshData_owned loadWebsiteMetrics_owned
      chart_owned_untouched split: prod.splits)

lemma run_owned: "chart_owned s \<Longrightarrow> chart_owned (run h acts s)"
  unfolding run_def by (induction acts arbitrary: s) (simp_all add: step_owned)

text \<open>
  C6. In every state the page reaches from its start, through any events with any
  outcomes of their requests, at most one chart instance exists. In such a state
  \<open>updateChart\<close> first destroys the existing instance, when there is one (no instance is
  left), and then creates a new one, different from the one it destroyed, which is the
  only instance afterwards and the one \<open>performanceChart\<close> refers to.
\<close>

theorem at_most_one_chart:
  "length (chart_instances (run h acts (page_start page))) \<le> 1 \<and>
   chart_instances (destroy_existing (run h acts (page_start page))) = [] \<and>
   map chart_id (chart_instances (updateChart h ms (run h acts (page_start page)))) =
     [charts_created (run h acts (page_start page))] \<and>
   performanceChart (updateChart h ms (run h acts (page_start page))) =
     Some (charts_created (run h acts (page_start page))) \<and>
   performanceChart (run h acts (page_start page)) \<noteq>
     Some (charts_created (run h acts (page_start page)))"
proof -
  let ?s = "run h acts (page_start page)"
  have o: "chart_owned ?s"
    by (rule run_owned) (rule chart_owned_page_start)
  have "length (map chart_id (chart_instances ?s)) \<le> 1"
    using o by (auto simp add: chart_owned_iff)
  moreover have "performanceChart ?s \<noteq> Some (charts_created ?s)"
    using o by (auto simp add: chart_owned_iff)
  ultimately show ?thesis
    using destroy_existing_owned[OF o] updateChart_owned(1,2)[OF o] by simp
qed

section \<open>Further properties of the requests and their outcomes\<close>

text \<open>
  \<open>runAudit\<close> issues no request when \<open>currentWebsiteId\<close> is \<^verbatim>\<open>null\<close> or 0, and
  otherwise exactly one, the audit request for the selected id, whatever its outcome.
\<close>

lemma runAudit_requests:
  "requests (runAudit r s) =
     (case currentWebsiteId s of
        None \<Rightarrow> requests s
      | Some i \<Rightarrow> if i = 0 then requests s else requests s @ [POST_audit i])"
  by (simp add: runAudit_def truthy_id_def prim_defs Let_def
      split: fetch_result.splits option.splits)

text \<open>
  A list load that fails (the promise rejects, or the body is not a readable array)
  leaves the grid with what it held, issues the one list request, and shows the
  notification \<open>Error loading websites\<close>. The grid is written only once the list is there:
  no path empties it first.
\<close>

lemma loadWebsites_failure:
  "websites_grid (loadWebsites Rejected s) = websites_grid s \<and>
   websites_grid (loadWebsites (Response ok None) s) = websites_grid s \<and>
   notifications (loadWebsites Rejected s) =
     notifications s @ [(''Error loading websites'', ''error'')] \<and>
   notifications (loadWebsites (Response ok None) s) =
     notifications s @ [(''Error loading websites'', ''error'')] \<and>
   requests (loadWebsites Rejected s) = requests s @ [GET_websites] \<and>
   requests (loadWebsites (Response ok None) s) = requests s @ [GET_websites] \<and>
   notifications (loadWebsites (Response ok (Some ws)) s) = notifications s"
  by (simp add: loadWebsites_def displayWebsites_def prim_defs Let_def)

text \<open>
  A form submission whose request comes back \<^verbatim>\<open>ok\<close> closes the modal, resets the
  form, shows the success notification and then reloads the list (two requests: the
  creation with the form's name and address, and the list). One that comes back not
  \<^verbatim>\<open>ok\<close> shows the server's \<open>error\<close> text, or \<open>Error adding website\<close> when the body has
  none, keeps the modal and the form as they were, and does not reload the list.
\<close>

lemma handleAddWebsite_outcomes:
  "add_website_modal_display (handleAddWebsite (Response True b) rl s) = ''none'' \<and>
   website_name_value (handleAddWebsite (Response True b) rl s) = '''' \<and>
   website_url_value (handleAddWebsite (Response True b) rl s) = '''' \<and>
   requests (handleAddWebsite (Response True b) rl s) =
     requests s @ [POST_websites (website_name_value s) (website_url_value s), GET_websites] \<and>
   take (Suc (length (notifications s))) (notifications (handleAddWebsite (Response True b) rl s)) =
     notifications s @ [(''Website added successfully!'', ''success'')] \<and>
   notifications (handleAddWebsite (Response False (Some e)) rl s) =
     notifications s @ [(or_else e ''Error adding website'', ''error'')] \<and>
   requests (handleAddWebsite (Response False (Some e)) rl s) =
     requests s @ [POST_websites (website_name_value s) (website_url_value s)] \<and>
   add_website_modal_display (handleAddWebsite (Response False (Some e)) rl s) =
     add_website_modal_display s \<and>
   website_name_value (handleAddWebsite (Response False (Some e)) rl s) = website_name_value s"
  by (simp add: handleAddWebsite_def loadWebsites_def displayWebsites_def hideAddWebsiteModal_def
      prim_defs Let_def split: fetch_result.splits option.splits)

text \<open>
  An audit answered with status ok and the body \<^verbatim>\<open>null\<close>: the notification of success is
  shown, then reading \<^verbatim>\<open>result.results\<close> throws and the \<^verbatim>\<open>catch\<close> block adds the
  notification of the error. With a status that is not ok, reading \<^verbatim>\<open>result.error\<close>
  throws first and the error is the only notification.
\<close>

lemma runAudit_null_body:
  assumes "truthy_id (currentWebsiteId s)"
  shows "notifications (runAudit (Response True (Some None)) s) =
           notifications s @ [(''Audit completed successfully!'', ''success''),
                              (''Error running audit'', ''error'')]"
    and "notifications (runAudit (Response False (Some None)) s) =
           notifications s @ [(''Error running audit'', ''error'')]"
    and "loading_overlay_display (runAudit (Response ok (Some None)) s) = ''none''"
  using assms by (simp_all add: runAudit_def prim_defs Let_def)

end
